theory Spec2Isabelle
  imports Complex_Main
begin

text \<open>
  A shallow embedding of the core of CryptoPodatki, a calculator of the Polish tax on
  cryptocurrency income (form PIT-38): the row parsers and the CSV reader of
  \<open>fileParser.ts\<close>, the resolution of NBP reference rates of \<open>nbpService.ts\<close>, and
  the classification of transactions and the computation of the tax per year with its
  carry-forward of costs of \<open>taxCalculator.ts\<close>. Asynchronous functions are modelled by
  their outcome: the value they resolve to or the exception they reject with, together
  with the state of the rate resolver they leave.
\<close>

section \<open>Numbers, strings and dates of the runtime\<close>

text \<open>
  A JavaScript \<open>number\<close> that holds money is modelled as an exact \<^typ>\<open>real\<close>: the
  rounding error of IEEE doubles, their infinities and NaN are outside the model. Where
  the code can observe NaN (\<open>parseFloat\<close>, the time value of an invalid \<open>Date\<close>,
  the year of an invalid \<open>Date\<close>), the number is an \<open>option\<close> and \<open>None\<close> is NaN.
\<close>

text \<open>\<open>Math.round(x)\<close>: the nearest integer, a tie going up.\<close>

definition Math_round :: "real \<Rightarrow> real" where
  "Math_round x = of_int \<lfloor>x + 1 / 2\<rfloor>"

text \<open>The idiom \<open>Math.round(x * 100) / 100\<close> of \<open>taxCalculator.ts\<close>.\<close>

definition round2 :: "real \<Rightarrow> real" where
  "round2 x = Math_round (x * 100) / 100"

text \<open>\<open>TAX_RATE\<close> of \<open>constants/index.ts\<close>.\<close>

definition TAX_RATE :: real where
  "TAX_RATE = 19 / 100"

text \<open>
  \<open>String.prototype.includes\<close>: the needle occurs as a contiguous run of the string.
\<close>

fun startsWith :: "string \<Rightarrow> string \<Rightarrow> bool" where
  "startsWith s [] = True"
| "startsWith [] (c # cs) = False"
| "startsWith (d # ds) (c # cs) = (d = c \<and> startsWith ds cs)"

fun str_includes :: "string \<Rightarrow> string \<Rightarrow> bool" where
  "str_includes [] sub = (sub = [])"
| "str_includes (c # cs) sub = (startsWith (c # cs) sub \<or> str_includes cs sub)"

text \<open>
  \<open>toUpperCase\<close> and \<open>toLowerCase\<close> on the ASCII letters. A string is its UTF-8 bytes;
  case mapping of letters beyond ASCII is outside the model.
\<close>

definition toUpperChar :: "char \<Rightarrow> char" where
  "toUpperChar c =
     (let n = (of_char c :: nat) in if 97 \<le> n \<and> n \<le> 122 then char_of (n - 32) else c)"

definition toLowerChar :: "char \<Rightarrow> char" where
  "toLowerChar c =
     (let n = (of_char c :: nat) in if 65 \<le> n \<and> n \<le> 90 then char_of (n + 32) else c)"

definition toUpperCase :: "string \<Rightarrow> string" where
  "toUpperCase s = map toUpperChar s"

definition toLowerCase :: "string \<Rightarrow> string" where
  "toLowerCase s = map toLowerChar s"

text \<open>
  \<open>String(n)\<close> of an integral number, as template literals insert it: \<open>showNat\<close> gives
  the decimal digits of a number that is not negative.
\<close>

definition digitChar :: "int \<Rightarrow> char" where
  "digitChar d = char_of (48 + d)"

function showNat :: "int \<Rightarrow> string" where
  "showNat n = (if n < 10 then [digitChar n] else showNat (n div 10) @ [digitChar (n mod 10)])"
  by pat_completeness auto
termination
  by (relation "measure nat") auto

declare showNat.simps [simp del]

definition showInt :: "int \<Rightarrow> string" where
  "showInt i = (if i < 0 then CHR ''-'' # showNat (- i) else showNat i)"

text \<open>\<open>String(x)\<close> of a number that may be NaN.\<close>

definition showNumber :: "int option \<Rightarrow> string" where
  "showNumber x = (case x of None \<Rightarrow> ''NaN'' | Some i \<Rightarrow> showInt i)"

text \<open>\<open>padStart(w, '0')\<close> of a decimal numeral, as \<open>toISOString\<close> pads its fields.\<close>

definition pad0 :: "nat \<Rightarrow> int \<Rightarrow> string" where
  "pad0 w n = replicate (w - length (showNat n)) CHR ''0'' @ showNat n"

text \<open>
  The order of \<open>Array.prototype.sort\<close> without a comparator: elements are compared as
  strings, code unit by code unit.
\<close>

fun stringLess :: "string \<Rightarrow> string \<Rightarrow> bool" where
  "stringLess [] [] = False"
| "stringLess [] (d # ds) = True"
| "stringLess (c # cs) [] = False"
| "stringLess (c # cs) (d # ds) =
     ((of_char c :: nat) < of_char d \<or> (c = d \<and> stringLess cs ds))"

text \<open>
  \<open>Array.prototype.sort\<close> is stable. For a comparator that is a consistent order every
  stable sort returns the same array; it is modelled as insertion sort. A comparator
  result of NaN (\<open>None\<close>) counts as 0. (With such results the comparator need not be a
  consistent order, and the order the engine produces is then implementation-defined.)
\<close>

fun sortInsert :: "('a \<Rightarrow> 'a \<Rightarrow> int option) \<Rightarrow> 'a \<Rightarrow> 'a list \<Rightarrow> 'a list" where
  "sortInsert cmp x [] = [x]"
| "sortInsert cmp x (y # ys) =
     (if (case cmp x y of None \<Rightarrow> 0 | Some v \<Rightarrow> v) \<le> 0 then x # y # ys
      else y # sortInsert cmp x ys)"

definition Array_sort :: "('a \<Rightarrow> 'a \<Rightarrow> int option) \<Rightarrow> 'a list \<Rightarrow> 'a list" where
  "Array_sort cmp xs = foldr (sortInsert cmp) xs []"

definition defaultCompare :: "int option \<Rightarrow> int option \<Rightarrow> int option" where
  "defaultCompare a b =
     (if stringLess (showNumber a) (showNumber b) then Some (- 1)
      else if stringLess (showNumber b) (showNumber a) then Some 1
      else Some 0)"

subsection \<open>Dates\<close>

text \<open>
  A \<open>Date\<close> is its time value: milliseconds since the epoch, \<open>None\<close> for an invalid
  date (time value NaN). The local time zone is taken to be UTC, so that the local
  accessors (\<open>getFullYear\<close>, \<open>getDay\<close>, \<open>getDate\<close>, \<open>setDate\<close>) and \<open>toISOString\<close> read
  the same calendar day.
\<close>

type_synonym jsdate = "int option"

definition msPerDay :: int where
  "msPerDay = 86400000"

text \<open>A time value beyond 8.64e15 ms from the epoch makes the date invalid.\<close>

definition TimeClip :: "int \<Rightarrow> jsdate" where
  "TimeClip t = (if \<bar>t\<bar> \<le> 8640000000000000 then Some t else None)"

text \<open>Year, month (1 to 12) and day of the month of a day number (days since the epoch).\<close>

definition civil :: "int \<Rightarrow> int \<times> int \<times> int" where
  "civil z0 =
     (let z = z0 + 719468;
          era = z div 146097;
          doe = z - era * 146097;
          yoe = (doe - doe div 1460 + doe div 36524 - doe div 146096) div 365;
          y = yoe + era * 400;
          doy = doe - (365 * yoe + yoe div 4 - yoe div 100);
          mp = (5 * doy + 2) div 153;
          d = doy - (153 * mp + 2) div 5 + 1;
          m = (if mp < 10 then mp + 3 else mp - 9)
      in (if m \<le> 2 then y + 1 else y, m, d))"

definition getFullYear :: "jsdate \<Rightarrow> int option" where
  "getFullYear d = (case d of None \<Rightarrow> None | Some t \<Rightarrow> Some (fst (civil (t div msPerDay))))"

text \<open>\<open>getDay\<close>: 0 is Sunday, 6 is Saturday; the epoch was a Thursday.\<close>

definition getDay :: "jsdate \<Rightarrow> int option" where
  "getDay d = (case d of None \<Rightarrow> None | Some t \<Rightarrow> Some ((t div msPerDay + 4) mod 7))"

text \<open>\<open>d.setDate(d.getDate() + k)\<close>: the same time of day, \<open>k\<close> days later.\<close>

definition addDays :: "jsdate \<Rightarrow> int \<Rightarrow> jsdate" where
  "addDays d k = (case d of None \<Rightarrow> None | Some t \<Rightarrow> TimeClip (t + k * msPerDay))"

datatype js_error = RangeError | TypeError | SyntaxError | Error string

text \<open>\<open>toISOString\<close> throws a RangeError on an invalid date.\<close>

definition isoYear :: "int \<Rightarrow> string" where
  "isoYear y =
     (if 0 \<le> y \<and> y \<le> 9999 then pad0 4 y
      else (if y < 0 then ''-'' else ''+'') @ pad0 6 \<bar>y\<bar>)"

definition toISOString :: "jsdate \<Rightarrow> js_error + string" where
  "toISOString d =
     (case d of
        None \<Rightarrow> Inl RangeError
      | Some t \<Rightarrow>
          (let (y, m, dd) = civil (t div msPerDay);
               ms = t mod msPerDay
           in Inr (isoYear y @ ''-'' @ pad0 2 m @ ''-'' @ pad0 2 dd @ ''T''
                   @ pad0 2 (ms div 3600000) @ '':'' @ pad0 2 (ms div 60000 mod 60) @ '':''
                   @ pad0 2 (ms div 1000 mod 60) @ ''.'' @ pad0 3 (ms mod 1000) @ ''Z'')))"

section \<open>Data model (\<open>types/index.ts\<close>)\<close>

datatype TransactionType =
  Buy | Sell | Crypto_swap | Fee | Transfer_in | Transfer_out | Payment
  | Staking_reward | Airdrop | Unknown

text \<open>
  The records \<open>Transaction\<close> and \<open>TaxYear\<close> are declared over the type \<open>'n\<close> of their
  numbers, so that the same fields serve the exact numbers of the idealised engine
  (\<open>Transaction\<close>, \<open>TaxYear\<close>) and the IEEE doubles of the code.
\<close>

record 'n Transaction_of =
  tx_id :: string
  date :: jsdate
  type :: TransactionType
  cryptoSymbol :: string
  cryptoAmount :: 'n
  fiatAmount :: 'n
  fiatCurrency :: string
  fee :: "'n option"
  feeCurrency :: "string option"
  exchangeName :: "string option"
  tx_notes :: "string option"
  nbpExchangeRate :: "'n option"
  amountInPLN :: "'n option"
  feeInPLN :: "'n option"

type_synonym Transaction = "real Transaction_of"

record 'n TaxYear_of =
  year :: "int option"
  revenue :: 'n
  currentYearCosts :: 'n
  previousYearsCosts :: 'n
  totalCosts :: 'n
  income :: 'n
  tax :: 'n
  carryForwardCosts :: 'n
  taxableTransactions :: "'n Transaction_of list"
  acquisitionTransactions :: "'n Transaction_of list"

type_synonym TaxYear = "real TaxYear_of"

datatype FileType = Csv | Xlsx | Pdf

record ParsedFile =
  fileName :: string
  fileType :: FileType
  transactions :: "Transaction list"
  parseErrors :: "string list"
  parsedAt :: jsdate

text \<open>
  \<open>TaxCalculation\<close>; its \<open>id\<close> and \<open>totalCosts\<close> are \<open>calc_id\<close> and \<open>calc_totalCosts\<close>
  here (the names are taken by the identity function and by the field of \<open>TaxYear\<close>).
\<close>

record TaxCalculation =
  calc_id :: string
  createdAt :: jsdate
  updatedAt :: jsdate
  name :: string
  years :: "TaxYear list"
  files :: "ParsedFile list"
  totalRevenue :: real
  calc_totalCosts :: real
  totalIncome :: real
  totalTax :: real

text \<open>
  What a call reads from the runtime rather than from its arguments: the clock
  (\<open>Date.now()\<close> and \<open>new Date()\<close>, taken not to tick during one call), the text of
  \<open>Math.random().toString(36)\<close>, and the two parsers of the language, \<open>parseFloat\<close>
  (\<open>None\<close> is NaN) and the time value of \<open>new Date(text)\<close> (\<open>None\<close> is an invalid date),
  whose accepted formats depend on the engine.
\<close>

record runtime =
  Date_now :: int
  Math_random_36 :: string
  parseFloat :: "string \<Rightarrow> real option"
  Date_parse :: "string \<Rightarrow> int option"

section \<open>Classifier and the tax of one year (\<open>taxCalculator.ts\<close>)\<close>

definition isTaxableSale :: "'n Transaction_of \<Rightarrow> bool" where
  "isTaxableSale transaction = (type transaction = Sell \<or> type transaction = Payment)"

text \<open>\<open>transaction.notes?.includes('sell')\<close> is undefined, hence falsy, without a note.\<close>

definition isDeductibleCost :: "'n Transaction_of \<Rightarrow> bool" where
  "isDeductibleCost transaction =
     (if type transaction = Buy then True
      else if type transaction = Fee
              \<and> (case tx_notes transaction of None \<Rightarrow> False | Some n \<Rightarrow> str_includes n ''sell'')
           then True
      else False)"

text \<open>The two \<open>reduce\<close> callbacks of \<open>calculateYearTax\<close> and the sums they fold.\<close>

definition revenueStep :: "real \<Rightarrow> Transaction \<Rightarrow> real" where
  "revenueStep acc tx = acc + (case amountInPLN tx of None \<Rightarrow> 0 | Some a \<Rightarrow> a)"

definition costStep :: "real \<Rightarrow> Transaction \<Rightarrow> real" where
  "costStep acc tx =
     (let cost = (case amountInPLN tx of None \<Rightarrow> 0 | Some a \<Rightarrow> a);
          cost = (case feeInPLN tx of
                    None \<Rightarrow> cost
                  | Some f \<Rightarrow> if f \<noteq> 0 then cost + f else cost)
      in acc + cost)"

definition yearRevenue :: "Transaction list \<Rightarrow> real" where
  "yearRevenue txs = foldl revenueStep 0 (filter isTaxableSale txs)"

definition yearCosts :: "Transaction list \<Rightarrow> real" where
  "yearCosts txs = foldl costStep 0 (filter isDeductibleCost txs)"

definition calculateYearTax :: "int option \<Rightarrow> Transaction list \<Rightarrow> real \<Rightarrow> TaxYear" where
  "calculateYearTax yr txs carryForwardFromPreviousYear =
     (let taxableSales = filter isTaxableSale txs;
          acquisitions = filter isDeductibleCost txs;
          revenue = foldl revenueStep 0 taxableSales;
          currentYearCosts = foldl costStep 0 acquisitions;
          previousYearsCosts = carryForwardFromPreviousYear;
          totalCosts = currentYearCosts + previousYearsCosts;
          income = max (revenue - totalCosts) 0;
          carryForwardCosts = max (totalCosts - revenue) 0;
          tax = income * TAX_RATE
      in \<lparr> year = yr,
           revenue = round2 revenue,
           currentYearCosts = round2 currentYearCosts,
           previousYearsCosts = round2 previousYearsCosts,
           totalCosts = round2 totalCosts,
           income = round2 income,
           tax = round2 tax,
           carryForwardCosts = round2 carryForwardCosts,
           taxableTransactions = taxableSales,
           acquisitionTransactions = acquisitions \<rparr>)"

section \<open>Rate resolution (\<open>nbpService.ts\<close>)\<close>

text \<open>
  The rate source is outside the program. One \<open>fetch\<close> either rejects (the source is
  unreachable) or yields a response with its \<open>ok\<close> flag and a body. Reading the body
  either fails (\<open>response.json()\<close> throws, or the value has no \<open>rates\<close> array to index)
  or gives the \<open>mid\<close> values of \<open>data.rates\<close>, typed as \<open>NBPExchangeRate\<close> declares
  them. The source answers a request by its URL.
\<close>

datatype json_body = Malformed | Rates "real list"

datatype fetch_result = Rejected | Response bool json_body

type_synonym rate_source = "string \<Rightarrow> fetch_result"

text \<open>
  The state of the resolver: the module-level \<open>rateCache\<close>, and the requests issued so
  far, oldest first (kept to state which calls reach the network).
\<close>

record resolver_state =
  rateCache :: "string \<rightharpoonup> real"
  requests :: "string list"

definition NBP_API_BASE :: string where
  "NBP_API_BASE = ''https://api.nbp.pl/api/exchangerates''"

text \<open>The \<open>while\<close> loop of \<open>getLastBusinessDay\<close>; on an invalid date \<open>getDay\<close> is NaN and the loop ends.\<close>

function getLastBusinessDay_loop :: "jsdate \<Rightarrow> jsdate" where
  "getLastBusinessDay_loop result =
     (if getDay result = Some 0 \<or> getDay result = Some 6
      then getLastBusinessDay_loop (addDays result (- 1))
      else result)"
  by pat_completeness auto
termination
proof (relation "measure (\<lambda>d. if getDay d = Some 0 then 2 else if getDay d = Some 6 then 1 else 0)")
  show "wf (measure (\<lambda>d. if getDay d = Some 0 then 2 else if getDay d = Some 6 then 1 else (0::nat)))"
    by simp
next
  fix result :: jsdate
  assume wk: "getDay result = Some 0 \<or> getDay result = Some 6"
  then obtain t where t: "result = Some t"
    by (cases result) (auto simp: getDay_def)
  have shift: "(t + - 1 * msPerDay) div msPerDay = t div msPerDay - 1"
    by (simp add: msPerDay_def)
  show "(addDays result (- 1), result)
          \<in> measure (\<lambda>d. if getDay d = Some 0 then 2 else if getDay d = Some 6 then 1 else 0)"
  proof (cases "TimeClip (t + - 1 * msPerDay)")
    case None
    with wk t show ?thesis by (auto simp: addDays_def getDay_def)
  next
    case (Some u)
    then have u: "u = t + - 1 * msPerDay"
      by (auto simp: TimeClip_def split: if_splits)
    define k where "k = t div msPerDay"
    have before: "getDay result = Some ((k + 4) mod 7)"
      by (simp add: t getDay_def k_def)
    have after: "getDay (addDays result (- 1)) = Some ((k - 1 + 4) mod 7)"
      using Some u shift by (simp add: t addDays_def getDay_def k_def)
    from wk before consider "(k + 4) mod 7 = 0" | "(k + 4) mod 7 = 6"
      by auto
    then show ?thesis
    proof cases
      case 1
      then have "(k - 1 + 4) mod 7 = 6" by presburger
      with 1 before after show ?thesis by simp
    next
      case 2
      then have "(k - 1 + 4) mod 7 = 5" by presburger
      with 2 before after show ?thesis by simp
    qed
  qed
qed

declare getLastBusinessDay_loop.simps [simp del]

definition getLastBusinessDay :: "jsdate \<Rightarrow> jsdate" where
  "getLastBusinessDay d = getLastBusinessDay_loop (addDays d (- 1))"

text \<open>\<open>date.toISOString().split('T')[0]\<close>: the text before the first \<open>T\<close>.\<close>

definition formatDateForAPI :: "jsdate \<Rightarrow> js_error + string" where
  "formatDateForAPI d =
     (case toISOString d of
        Inl e \<Rightarrow> Inl e
      | Inr s \<Rightarrow> Inr (takeWhile (\<lambda>c. c \<noteq> CHR ''T'') s))"

text \<open>\<open>fallbackRates[currencyCode.toUpperCase()] || 4.0\<close>.\<close>

definition fallbackRates :: "string \<rightharpoonup> real" where
  "fallbackRates = map_of
     [(''USD'', 4), (''EUR'', 43 / 10), (''GBP'', 51 / 10), (''CHF'', 45 / 10),
      (''AUD'', 26 / 10), (''CAD'', 3), (''JPY'', 27 / 1000)]"

definition getFallbackRate :: "string \<Rightarrow> real" where
  "getFallbackRate currencyCode =
     (case fallbackRates (toUpperCase currencyCode) of
        None \<Rightarrow> 4
      | Some r \<Rightarrow> if r \<noteq> 0 then r else 4)"

text \<open>
  \<open>getNearestNBPRate\<close>. The two dates are formatted before the \<open>try\<close> block, so an
  exception of \<open>toISOString\<close> leaves the function; everything after that is caught and
  answered from the fallback table.
\<close>

definition getNearestNBPRate ::
  "rate_source \<Rightarrow> string \<Rightarrow> jsdate \<Rightarrow> resolver_state \<Rightarrow> (js_error + real) \<times> resolver_state" where
  "getNearestNBPRate src currencyCode startDate st =
     (case formatDateForAPI startDate of
        Inl e \<Rightarrow> (Inl e, st)
      | Inr endDate \<Rightarrow>
     (case formatDateForAPI (addDays startDate (- 7)) of
        Inl e \<Rightarrow> (Inl e, st)
      | Inr startDateStr \<Rightarrow>
          (let url = NBP_API_BASE @ ''/rates/a/'' @ toLowerCase currencyCode @ ''/''
                     @ startDateStr @ ''/'' @ endDate @ ''/?format=json'';
               st1 = st\<lparr>requests := requests st @ [url]\<rparr>;
               tried =
                 (case src url of
                    Rejected \<Rightarrow> Inl (Error ''Network request failed'')
                  | Response ok body \<Rightarrow>
                      if \<not> ok then Inl (Error (''Failed to fetch NBP rate for '' @ currencyCode))
                      else (case body of
                              Malformed \<Rightarrow> Inl SyntaxError
                            | Rates rs \<Rightarrow>
                                if length rs = 0
                                then Inl (Error (''No NBP rate found for '' @ currencyCode))
                                else Inr (rs ! (length rs - 1))))
           in case tried of
                Inr rate \<Rightarrow>
                  (let cacheKey = toUpperCase currencyCode @ ''_'' @ endDate
                   in (Inr rate, st1\<lparr>rateCache := (rateCache st1)(cacheKey \<mapsto> rate)\<rparr>))
              | Inl e \<Rightarrow> (Inr (getFallbackRate currencyCode), st1))))"

text \<open>
  \<open>getNBPExchangeRate\<close>. The reference date is computed and formatted before the \<open>try\<close>
  block. Inside it, a rejected fetch, an unreadable body and \<open>data.rates[0]\<close> being
  undefined all throw and are caught; the \<open>catch\<close> block then asks
  \<open>getNearestNBPRate\<close>, as the \<open>!response.ok\<close> branch does from inside the \<open>try\<close>.
\<close>

definition getNBPExchangeRate ::
  "rate_source \<Rightarrow> string \<Rightarrow> jsdate \<Rightarrow> resolver_state \<Rightarrow> (js_error + real) \<times> resolver_state" where
  "getNBPExchangeRate src currencyCode transactionDate st =
     (if toUpperCase currencyCode = ''PLN'' then (Inr 1, st)
      else
        (let rateDate = getLastBusinessDay transactionDate in
         case formatDateForAPI rateDate of
           Inl e \<Rightarrow> (Inl e, st)
         | Inr formattedDate \<Rightarrow>
             (let cacheKey = toUpperCase currencyCode @ ''_'' @ formattedDate in
              case rateCache st cacheKey of
                Some r \<Rightarrow> (Inr r, st)
              | None \<Rightarrow>
                  (let url = NBP_API_BASE @ ''/rates/a/'' @ toLowerCase currencyCode @ ''/''
                             @ formattedDate @ ''/?format=json'';
                       st1 = st\<lparr>requests := requests st @ [url]\<rparr>;
                       tried =
                         (case src url of
                            Rejected \<Rightarrow> (Inl (Error ''Network request failed''), st1)
                          | Response ok body \<Rightarrow>
                              if \<not> ok then getNearestNBPRate src currencyCode rateDate st1
                              else (case body of
                                      Malformed \<Rightarrow> (Inl SyntaxError, st1)
                                    | Rates rs \<Rightarrow>
                                        (case rs of
                                           [] \<Rightarrow> (Inl TypeError, st1)
                                         | rate # _ \<Rightarrow>
                                             (Inr rate,
                                              st1\<lparr>rateCache := (rateCache st1)(cacheKey \<mapsto> rate)\<rparr>))))
                   in case tried of
                        (Inr rate, st2) \<Rightarrow> (Inr rate, st2)
                      | (Inl e, st2) \<Rightarrow> getNearestNBPRate src currencyCode rateDate st2))))"

text \<open>\<open>convertToPLN\<close> returns \<open>{ amountPLN, exchangeRate }\<close>, here a pair in that order.\<close>

definition convertToPLN ::
  "rate_source \<Rightarrow> real \<Rightarrow> string \<Rightarrow> jsdate \<Rightarrow> resolver_state
     \<Rightarrow> (js_error + real \<times> real) \<times> resolver_state" where
  "convertToPLN src amount currency transactionDate st =
     (case getNBPExchangeRate src currency transactionDate st of
        (Inl e, st1) \<Rightarrow> (Inl e, st1)
      | (Inr exchangeRate, st1) \<Rightarrow> (Inr (amount * exchangeRate, exchangeRate), st1))"

section \<open>The tax engine (\<open>taxCalculator.ts\<close>)\<close>

text \<open>
  One iteration of the loop of \<open>calculatePLNAmounts\<close>: the copy of the transaction with
  its amounts resolved, or the exception a conversion threw. \<open>tx.fee && tx.feeCurrency\<close>
  holds when the fee is present and not 0 and the currency is present and not empty.
\<close>

definition calculatePLNAmounts_step ::
  "rate_source \<Rightarrow> Transaction \<Rightarrow> resolver_state \<Rightarrow> (js_error + Transaction) \<times> resolver_state" where
  "calculatePLNAmounts_step src tx st =
     (let txCopy = tx;
          amountDone =
            (if fiatCurrency tx \<noteq> ''PLN'' \<and> fiatAmount tx > 0 then
               (case convertToPLN src (fiatAmount tx) (fiatCurrency tx) (date tx) st of
                  (Inl e, st1) \<Rightarrow> (Inl e, st1)
                | (Inr (amountPLN, exchangeRate), st1) \<Rightarrow>
                    (Inr (txCopy\<lparr>nbpExchangeRate := Some exchangeRate,
                                 amountInPLN := Some amountPLN\<rparr>), st1))
             else
               (Inr (txCopy\<lparr>amountInPLN := Some (fiatAmount tx),
                            nbpExchangeRate := Some 1\<rparr>), st))
      in case amountDone of
           (Inl e, st1) \<Rightarrow> (Inl e, st1)
         | (Inr txCopy, st1) \<Rightarrow>
             (case (fee tx, feeCurrency tx) of
                (Some f, Some fc) \<Rightarrow>
                  if f \<noteq> 0 \<and> fc \<noteq> [] then
                    (if fc \<noteq> ''PLN'' then
                       (case convertToPLN src f fc (date tx) st1 of
                          (Inl e, st2) \<Rightarrow> (Inl e, st2)
                        | (Inr (amountPLN, exchangeRate), st2) \<Rightarrow>
                            (Inr (txCopy\<lparr>feeInPLN := Some amountPLN\<rparr>), st2))
                     else (Inr (txCopy\<lparr>feeInPLN := Some f\<rparr>), st1))
                  else (Inr txCopy, st1)
              | _ \<Rightarrow> (Inr txCopy, st1)))"

fun calculatePLNAmounts_loop ::
  "rate_source \<Rightarrow> Transaction list \<Rightarrow> Transaction list \<Rightarrow> resolver_state
     \<Rightarrow> (js_error + Transaction list) \<times> resolver_state" where
  "calculatePLNAmounts_loop src result [] st = (Inr result, st)"
| "calculatePLNAmounts_loop src result (tx # rest) st =
     (case calculatePLNAmounts_step src tx st of
        (Inl e, st1) \<Rightarrow> (Inl e, st1)
      | (Inr txCopy, st1) \<Rightarrow> calculatePLNAmounts_loop src (result @ [txCopy]) rest st1)"

definition calculatePLNAmounts ::
  "rate_source \<Rightarrow> Transaction list \<Rightarrow> resolver_state
     \<Rightarrow> (js_error + Transaction list) \<times> resolver_state" where
  "calculatePLNAmounts src txs st = calculatePLNAmounts_loop src [] txs st"

text \<open>
  \<open>groupByYear\<close>: a \<open>Map\<close> keeps its keys in insertion order, so it is an association
  list; NaN is a key like any other.
\<close>

definition groupByYear_step ::
  "(int option \<times> Transaction list) list \<Rightarrow> Transaction
     \<Rightarrow> (int option \<times> Transaction list) list" where
  "groupByYear_step groups tx =
     (let yr = getFullYear (date tx);
          groups = (if map_of groups yr = None then groups @ [(yr, [])] else groups)
      in map (\<lambda>(k, v). if k = yr then (k, v @ [tx]) else (k, v)) groups)"

definition groupByYear :: "Transaction list \<Rightarrow> (int option \<times> Transaction list) list" where
  "groupByYear txs = foldl groupByYear_step [] txs"

text \<open>The comparator \<open>(a, b) => a.date.getTime() - b.date.getTime()\<close>.\<close>

definition compareByDate :: "Transaction \<Rightarrow> Transaction \<Rightarrow> int option" where
  "compareByDate a b =
     (case (date a, date b) of (Some x, Some y) \<Rightarrow> Some (x - y) | _ \<Rightarrow> None)"

text \<open>The loop over the years: the tax years so far and the running carry-forward.\<close>

definition yearLoop_step ::
  "(int option \<times> Transaction list) list \<Rightarrow> TaxYear list \<times> real \<Rightarrow> int option
     \<Rightarrow> TaxYear list \<times> real" where
  "yearLoop_step byYear acc yr =
     (let (taxYears, carryForward) = acc;
          yearTransactions = (case map_of byYear yr of None \<Rightarrow> [] | Some txs \<Rightarrow> txs);
          taxYear = calculateYearTax yr yearTransactions carryForward
      in (taxYears @ [taxYear], carryForwardCosts taxYear))"

definition generateId :: "runtime \<Rightarrow> string" where
  "generateId rt =
     ''calc_'' @ showInt (Date_now rt) @ ''_'' @ take 9 (drop 2 (Math_random_36 rt))"

definition calculateTax ::
  "runtime \<Rightarrow> rate_source \<Rightarrow> ParsedFile list \<Rightarrow> real \<Rightarrow> string \<Rightarrow> resolver_state
     \<Rightarrow> (js_error + TaxCalculation) \<times> resolver_state" where
  "calculateTax rt src fs previousCarryForwardCosts calculationName st =
     (let allTransactions = concat (map transactions fs);
          allTransactions = Array_sort compareByDate allTransactions
      in case calculatePLNAmounts src allTransactions st of
           (Inl e, st1) \<Rightarrow> (Inl e, st1)
         | (Inr transactionsWithPLN, st1) \<Rightarrow>
             (let byYear = groupByYear transactionsWithPLN;
                  yrs = Array_sort defaultCompare (map fst byYear);
                  (taxYears, carryForward) =
                     foldl (yearLoop_step byYear) ([], previousCarryForwardCosts) yrs;
                  totalRevenue = foldl (\<lambda>acc y. acc + revenue y) 0 taxYears;
                  totalCosts = foldl (\<lambda>acc y. acc + currentYearCosts y) 0 taxYears;
                  totalIncome = foldl (\<lambda>acc y. acc + income y) 0 taxYears;
                  totalTax = foldl (\<lambda>acc y. acc + tax y) 0 taxYears
              in (Inr \<lparr> calc_id = generateId rt,
                        createdAt = Some (Date_now rt),
                        updatedAt = Some (Date_now rt),
                        name = calculationName,
                        years = taxYears,
                        files = fs,
                        totalRevenue = round2 totalRevenue,
                        calc_totalCosts = round2 totalCosts,
                        totalIncome = round2 totalIncome,
                        totalTax = round2 totalTax \<rparr>, st1)))"

section \<open>Row parsers and the CSV reader (\<open>fileParser.ts\<close>)\<close>

text \<open>
  A row is a \<open>Record<string, string>\<close>: a map from column names to cells. Reading a
  column the row does not have gives undefined. The helpers are the idioms of the
  parsers: \<open>a || b\<close> on a cell that may be undefined or empty, \<open>parseFloat(cell)\<close>
  (\<open>parseFloat(undefined)\<close> is NaN), and \<open>x || 0\<close> on a number.
\<close>

type_synonym row = "string \<rightharpoonup> string"

definition orElse :: "string option \<Rightarrow> string \<Rightarrow> string" where
  "orElse cell d = (case cell of None \<Rightarrow> d | Some s \<Rightarrow> if s = [] then d else s)"

definition parseFloatCell :: "runtime \<Rightarrow> string option \<Rightarrow> real option" where
  "parseFloatCell rt cell = (case cell of None \<Rightarrow> None | Some s \<Rightarrow> parseFloat rt s)"

definition orZero :: "real option \<Rightarrow> real" where
  "orZero x = (case x of None \<Rightarrow> 0 | Some v \<Rightarrow> v)"

text \<open>\<open>new Date(dateStr)\<close>.\<close>

definition newDate :: "runtime \<Rightarrow> string \<Rightarrow> jsdate" where
  "newDate rt dateStr = (case Date_parse rt dateStr of None \<Rightarrow> None | Some t \<Rightarrow> TimeClip t)"

definition parseBinanceRow :: "runtime \<Rightarrow> row \<Rightarrow> string list \<Rightarrow> nat \<Rightarrow> Transaction option" where
  "parseBinanceRow rt r hdrs index =
     (let operation = orElse (map_option toLowerCase (r ''Operation'')) [];
          coin = orElse (r ''Coin'') [];
          change = orZero (parseFloatCell rt (r ''Change''));
          dateStr = orElse (r ''UTC_Time'') (orElse (r ''Date'') [])
      in if dateStr = [] \<or> coin = [] then None
         else
           (let ty =
                 (if str_includes operation ''buy'' \<or> str_includes operation ''deposit''
                    then (if change > 0 then Buy else Sell)
                  else if str_includes operation ''sell'' \<or> str_includes operation ''withdraw''
                    then Sell
                  else if str_includes operation ''fee'' then Fee
                  else if str_includes operation ''transfer''
                    then (if change > 0 then Transfer_in else Transfer_out)
                  else Unknown)
            in Some \<lparr> tx_id = ''binance_'' @ showInt (int index) @ ''_'' @ showInt (Date_now rt),
                      date = newDate rt dateStr,
                      type = ty,
                      cryptoSymbol = coin,
                      cryptoAmount = \<bar>change\<bar>,
                      fiatAmount = 0,
                      fiatCurrency = ''USD'',
                      fee = None,
                      feeCurrency = None,
                      exchangeName = Some ''Binance'',
                      tx_notes = None,
                      nbpExchangeRate = None,
                      amountInPLN = None,
                      feeInPLN = None \<rparr>))"

text \<open>
  \<open>pair.replace(/USD|EUR|PLN|GBP/gi, '').replace(/X/g, '')\<close>: every match of a fiat
  code, in any letter case, is removed from left to right, then every capital X.
\<close>

fun removeFiatCodes :: "string \<Rightarrow> string" where
  "removeFiatCodes [] = []"
| "removeFiatCodes (c # cs) =
     (if toUpperCase (take 3 (c # cs)) \<in> {''USD'', ''EUR'', ''PLN'', ''GBP''}
      then removeFiatCodes (drop 2 cs)
      else c # removeFiatCodes cs)"

definition parseKrakenRow :: "runtime \<Rightarrow> row \<Rightarrow> string list \<Rightarrow> nat \<Rightarrow> Transaction option" where
  "parseKrakenRow rt r hdrs index =
     (let txType = orElse (map_option toLowerCase (r ''type'')) [];
          pair = orElse (r ''pair'') [];
          cost = orZero (parseFloatCell rt (r ''cost''));
          vol = orZero (parseFloatCell rt (r ''vol''));
          fee = orZero (parseFloatCell rt (r ''fee''));
          dateStr = orElse (r ''time'') []
      in if dateStr = [] \<or> pair = [] then None
         else
           (let cryptoSymbol = filter (\<lambda>c. c \<noteq> CHR ''X'') (removeFiatCodes pair);
                ty = (if txType = ''buy'' then Buy else if txType = ''sell'' then Sell else Unknown)
            in Some \<lparr> tx_id = ''kraken_'' @ showInt (int index) @ ''_'' @ showInt (Date_now rt),
                      date = newDate rt dateStr,
                      type = ty,
                      cryptoSymbol = cryptoSymbol,
                      cryptoAmount = vol,
                      fiatAmount = cost,
                      fiatCurrency = ''USD'',
                      fee = Some fee,
                      feeCurrency = Some ''USD'',
                      exchangeName = Some ''Kraken'',
                      tx_notes = None,
                      nbpExchangeRate = None,
                      amountInPLN = None,
                      feeInPLN = None \<rparr>))"

definition parseCoinbaseRow :: "runtime \<Rightarrow> row \<Rightarrow> string list \<Rightarrow> nat \<Rightarrow> Transaction option" where
  "parseCoinbaseRow rt r hdrs index =
     (let txType = toLowerCase (orElse (r ''Transaction Type'') []);
          asset = orElse (r ''Asset'') [];
          quantity = orZero (parseFloatCell rt (r ''Quantity Transacted''));
          spotPrice = orZero (parseFloatCell rt (r ''Spot Price at Transaction''));
          total = orZero (parseFloatCell rt (r ''Total (inclusive of fees)''));
          fees = orZero (parseFloatCell rt (r ''Fees''));
          dateStr = orElse (r ''Timestamp'') []
      in if dateStr = [] \<or> asset = [] then None
         else
           (let ty =
                 (if txType = ''buy'' then Buy
                  else if txType = ''sell'' then Sell
                  else if txType = ''receive'' then Transfer_in
                  else if txType = ''send'' then Transfer_out
                  else Unknown)
            in Some \<lparr> tx_id = ''coinbase_'' @ showInt (int index) @ ''_'' @ showInt (Date_now rt),
                      date = newDate rt dateStr,
                      type = ty,
                      cryptoSymbol = asset,
                      cryptoAmount = quantity,
                      fiatAmount = (if total \<noteq> 0 then total else quantity * spotPrice),
                      fiatCurrency = ''USD'',
                      fee = Some fees,
                      feeCurrency = Some ''USD'',
                      exchangeName = Some ''Coinbase'',
                      tx_notes = None,
                      nbpExchangeRate = None,
                      amountInPLN = None,
                      feeInPLN = None \<rparr>))"

text \<open>
  The Polish words of the BitBay and generic parsers, in UTF-8: \<open>sprzeda\<close> followed by
  z with a dot above, \<open>wp\<close> and \<open>wyp\<close> followed by a stroked l and \<open>ata\<close>, and \<open>warto\<close>
  followed by s and c with acute accents.
\<close>

definition sprzedaz :: string where
  "sprzedaz = ''sprzeda'' @ [char_of (0xC5 :: nat), char_of (0xBC :: nat)]"

definition wplata :: string where
  "wplata = ''wp'' @ [char_of (0xC5 :: nat), char_of (0x82 :: nat)] @ ''ata''"

definition wyplata :: string where
  "wyplata = ''wyp'' @ [char_of (0xC5 :: nat), char_of (0x82 :: nat)] @ ''ata''"

definition wartosc :: string where
  "wartosc = ''warto'' @ [char_of (0xC5 :: nat), char_of (0x9B :: nat),
                          char_of (0xC4 :: nat), char_of (0x87 :: nat)]"

definition parseBitBayRow :: "runtime \<Rightarrow> row \<Rightarrow> string list \<Rightarrow> nat \<Rightarrow> Transaction option" where
  "parseBitBayRow rt r hdrs index =
     (let typ = toLowerCase (orElse (r ''Typ'') (orElse (r ''Type'') []));
          waluta = orElse (r ''Waluta'') (orElse (r ''Currency'') []);
          kwota = orZero (parseFloat rt (orElse (r ''Kwota'') (orElse (r ''Amount'') ''0'')));
          dateStr = orElse (r ''Data'') (orElse (r ''Date'') [])
      in if dateStr = [] \<or> waluta = [] then None
         else
           (let ty =
                 (if str_includes typ ''kupno'' \<or> str_includes typ ''buy'' then Buy
                  else if str_includes typ sprzedaz \<or> str_includes typ ''sell'' then Sell
                  else if str_includes typ wplata \<or> str_includes typ ''deposit'' then Transfer_in
                  else if str_includes typ wyplata \<or> str_includes typ ''withdraw''
                    then Transfer_out
                  else if str_includes typ ''prowizja'' \<or> str_includes typ ''fee'' then Fee
                  else Unknown)
            in Some \<lparr> tx_id = ''bitbay_'' @ showInt (int index) @ ''_'' @ showInt (Date_now rt),
                      date = newDate rt dateStr,
                      type = ty,
                      cryptoSymbol = waluta,
                      cryptoAmount = \<bar>kwota\<bar>,
                      fiatAmount = 0,
                      fiatCurrency = ''PLN'',
                      fee = None,
                      feeCurrency = None,
                      exchangeName = Some ''BitBay/Zonda'',
                      tx_notes = None,
                      nbpExchangeRate = None,
                      amountInPLN = None,
                      feeInPLN = None \<rparr>))"

text \<open>
  \<open>headers.find(h => keys.includes(h.toLowerCase()))\<close>. Where the symbol column is
  found but the row has no such cell, \<open>cryptoSymbol\<close> is undefined in the code; the
  string-typed field holds the empty string here.
\<close>

definition findKey :: "string list \<Rightarrow> string list \<Rightarrow> string option" where
  "findKey keys hdrs = find (\<lambda>h. toLowerCase h \<in> set keys) hdrs"

definition dateKeys :: "string list" where
  "dateKeys = [''date'', ''data'', ''time'', ''timestamp'', ''datetime'', ''utc_time'']"

definition typeKeys :: "string list" where
  "typeKeys = [''type'', ''typ'', ''operation'', ''side'', ''action'']"

definition amountKeys :: "string list" where
  "amountKeys = [''amount'', ''kwota'', ''quantity'', ''vol'', ''volume'', ''size'']"

definition symbolKeys :: "string list" where
  "symbolKeys = [''symbol'', ''coin'', ''asset'', ''currency'', ''waluta'', ''pair'']"

definition priceKeys :: "string list" where
  "priceKeys = [''price'', ''cena'', ''total'', ''cost'', ''value'', wartosc]"

definition parseGenericRow :: "runtime \<Rightarrow> row \<Rightarrow> string list \<Rightarrow> nat \<Rightarrow> Transaction option" where
  "parseGenericRow rt r hdrs index =
     (let dateKey = findKey dateKeys hdrs;
          typeKey = findKey typeKeys hdrs;
          amountKey = findKey amountKeys hdrs;
          symbolKey = findKey symbolKeys hdrs;
          priceKey = findKey priceKeys hdrs
      in case dateKey of
           None \<Rightarrow> None
         | Some dk \<Rightarrow>
             (let dateStr = orElse (r dk) []
              in if dateStr = [] then None
                 else
                   (let typeStr = (case typeKey of
                                     None \<Rightarrow> []
                                   | Some tk \<Rightarrow> toLowerCase (orElse (r tk) []));
                        ty = (if str_includes typeStr ''buy'' \<or> str_includes typeStr ''kup''
                                then Buy
                              else if str_includes typeStr ''sell'' \<or> str_includes typeStr ''sprzed''
                                then Sell
                              else Unknown)
                    in Some \<lparr> tx_id = ''generic_'' @ showInt (int index) @ ''_''
                                      @ showInt (Date_now rt),
                              date = newDate rt dateStr,
                              type = ty,
                              cryptoSymbol = (case symbolKey of
                                                None \<Rightarrow> ''UNKNOWN''
                                              | Some sk \<Rightarrow> (case r sk of None \<Rightarrow> [] | Some v \<Rightarrow> v)),
                              cryptoAmount = (case amountKey of
                                                None \<Rightarrow> 0
                                              | Some ak \<Rightarrow> \<bar>orZero (parseFloatCell rt (r ak))\<bar>),
                              fiatAmount = (case priceKey of
                                              None \<Rightarrow> 0
                                            | Some pk \<Rightarrow> \<bar>orZero (parseFloatCell rt (r pk))\<bar>),
                              fiatCurrency = ''PLN'',
                              fee = None,
                              feeCurrency = None,
                              exchangeName = Some ''Custom'',
                              tx_notes = None,
                              nbpExchangeRate = None,
                              amountInPLN = None,
                              feeInPLN = None \<rparr>)))"

text \<open>
  \<open>detectExchangeFormat\<close> returns the parser for the header row. The reader calls the
  parser inside \<open>try\<close>, so the parser's outcome is either its return value or the
  exception it threw; the five parsers above always return.
\<close>

type_synonym row_parser = "row \<Rightarrow> string list \<Rightarrow> nat \<Rightarrow> js_error + Transaction option"

definition detectExchangeFormat :: "runtime \<Rightarrow> string list \<Rightarrow> row_parser" where
  "detectExchangeFormat rt hdrs =
     (let headerLower = map toLowerCase hdrs
      in if ''operation'' \<in> set headerLower \<and> ''coin'' \<in> set headerLower
           then (\<lambda>r h i. Inr (parseBinanceRow rt r h i))
         else if ''txid'' \<in> set headerLower \<and> ''pair'' \<in> set headerLower
           then (\<lambda>r h i. Inr (parseKrakenRow rt r h i))
         else if ''transaction type'' \<in> set headerLower \<and> ''asset'' \<in> set headerLower
           then (\<lambda>r h i. Inr (parseCoinbaseRow rt r h i))
         else if ''typ'' \<in> set headerLower \<and> ''waluta'' \<in> set headerLower
           then (\<lambda>r h i. Inr (parseBitBayRow rt r h i))
         else (\<lambda>r h i. Inr (parseGenericRow rt r h i)))"

definition errorMessage :: "js_error \<Rightarrow> string" where
  "errorMessage e = (case e of Error m \<Rightarrow> m | _ \<Rightarrow> [])"

text \<open>
  The body of \<open>rows.forEach\<close> in \<open>parseCSV\<close>, on the pair of the \<open>transactions\<close> and
  \<open>errors\<close> arrays.
\<close>

definition parseCSV_row ::
  "row_parser \<Rightarrow> string list \<Rightarrow> Transaction list \<times> string list \<Rightarrow> row \<times> nat
     \<Rightarrow> Transaction list \<times> string list" where
  "parseCSV_row parser hdrs acc ri =
     (let (txs, errors) = acc; (r, index) = ri
      in case parser r hdrs index of
           Inr (Some transaction) \<Rightarrow> (txs @ [transaction], errors)
         | Inr None \<Rightarrow> (txs, errors)
         | Inl error \<Rightarrow>
             (txs, errors @ [''Wiersz '' @ showInt (int index + 2) @ '': '' @ errorMessage error]))"

text \<open>
  What Papa Parse hands to \<open>parseCSV\<close>: the \<open>complete\<close> callback with the rows and
  the header fields, or the \<open>error\<close> callback with a message.
\<close>

datatype papa_result = Complete "row list" "string list" | ParseError string

definition parseCSV :: "runtime \<Rightarrow> papa_result \<Rightarrow> string \<Rightarrow> ParsedFile" where
  "parseCSV rt parsed fName =
     (case parsed of
        Complete rows hdrs \<Rightarrow>
          (let parser = detectExchangeFormat rt hdrs;
               (txs, errors) = foldl (parseCSV_row parser hdrs) ([], []) (zip rows [0 ..< length rows])
           in \<lparr> fileName = fName, fileType = Csv, transactions = txs,
                parseErrors = errors, parsedAt = Some (Date_now rt) \<rparr>)
      | ParseError m \<Rightarrow>
          \<lparr> fileName = fName, fileType = Csv, transactions = [],
            parseErrors = [''B'' @ [char_of (0xC5 :: nat), char_of (0x82 :: nat)]
                           @ [char_of (0xC4 :: nat), char_of (0x85 :: nat)]
                           @ ''d parsowania CSV: '' @ m],
            parsedAt = Some (Date_now rt) \<rparr>)"

section \<open>The quantities the specification names\<close>



text \<open>The value a call returned, \<open>None\<close> when it threw.\<close>

definition resultOf :: "(js_error + 'a) \<times> resolver_state \<Rightarrow> 'a option" where
  "resultOf out = (case fst out of Inl e \<Rightarrow> None | Inr v \<Rightarrow> Some v)"

text \<open>
  The loop over the years as a recursion on the list of years: each year is computed
  from the \<open>carryForwardCosts\<close> field of the year before it.
\<close>

fun yearChain ::
  "(int option \<times> Transaction list) list \<Rightarrow> real \<Rightarrow> int option list \<Rightarrow> TaxYear list" where
  "yearChain byYear c [] = []"
| "yearChain byYear c (yr # yrs) =
     calculateYearTax yr (case map_of byYear yr of None \<Rightarrow> [] | Some txs \<Rightarrow> txs) c
       # yearChain byYear
           (carryForwardCosts
              (calculateYearTax yr (case map_of byYear yr of None \<Rightarrow> [] | Some txs \<Rightarrow> txs) c))
           yrs"

text \<open>An amount of whole grosze: an integer number of hundredths.\<close>

definition wholeCents :: "real \<Rightarrow> bool" where
  "wholeCents x = (x * 100 = of_int \<lfloor>x * 100\<rfloor>)"


section \<open>Example inputs\<close>

text \<open>
  A runtime whose clock reads 1700000000000, with the cells and date texts the examples
  read (every other text is unreadable to it), and the same runtime one millisecond
  later. The rate source \<open>offline\<close> rejects every request. The resolver starts with an
  empty cache.
\<close>

definition rt0 :: runtime where
  "rt0 = \<lparr> Date_now = 1700000000000,
           Math_random_36 = ''0.4fzyo82mvyr'',
           parseFloat = map_of [(''0'', 0), (''1'', 1), (''5'', 5), (''-1'', - 1),
                                (''100'', 100), (''-100'', - 100), (''0.5'', 1 / 2)],
           Date_parse = map_of [(''2020-09-13T12:26:40Z'', 1600000000000),
                                (''2021-12-20T11:33:20Z'', 1640000000000)] \<rparr>"


definition offline :: rate_source where
  "offline url = Rejected"

definition st0 :: resolver_state where
  "st0 = \<lparr> rateCache = Map.empty, requests = [] \<rparr>"

text \<open>A transaction with nothing resolved yet, dated 2020-09-13, and variations of it.\<close>

definition tx0 :: Transaction where
  "tx0 = \<lparr> tx_id = ''t0'', date = Some 1600000000000, type = Unknown, cryptoSymbol = ''BTC'',
           cryptoAmount = 1, fiatAmount = 0, fiatCurrency = ''PLN'', fee = None,
           feeCurrency = None, exchangeName = None, tx_notes = None,
           nbpExchangeRate = None, amountInPLN = None, feeInPLN = None \<rparr>"

definition resolvedTx :: "TransactionType \<Rightarrow> real \<Rightarrow> Transaction" where
  "resolvedTx ty a = tx0\<lparr>type := ty, fiatAmount := a, amountInPLN := Some a\<rparr>"

definition laterTx :: "TransactionType \<Rightarrow> real \<Rightarrow> Transaction" where
  "laterTx ty a = (resolvedTx ty a)\<lparr>tx_id := ''t1'', date := Some 1640000000000\<rparr>"

definition fileOf :: "Transaction list \<Rightarrow> ParsedFile" where
  "fileOf txs = \<lparr> fileName = ''export.csv'', fileType = Csv, transactions = txs,
                  parseErrors = [], parsedAt = Some 1700000000000 \<rparr>"






definition krakenHeaders :: "string list" where
  "krakenHeaders = [''txid'', ''time'', ''type'', ''pair'', ''cost'', ''vol'', ''fee'']"

definition krakenNegativeRow :: row where
  "krakenNegativeRow = map_of [(''txid'', ''T1''), (''time'', ''2020-09-13T12:26:40Z''),
                               (''type'', ''sell''), (''pair'', ''XBTUSD''),
                               (''cost'', ''-100''), (''vol'', ''-1''), (''fee'', ''0'')]"


definition krakenBadDateRow :: row where
  "krakenBadDateRow = map_of [(''txid'', ''T3''), (''time'', ''not a date''),
                              (''type'', ''sell''), (''pair'', ''XBTUSD''),
                              (''cost'', ''100''), (''vol'', ''1''), (''fee'', ''0'')]"

section \<open>Properties\<close>

subsection \<open>Rounding and the folds of one year\<close>




lemma calculateYearTax_year_sums:
  "revenue (calculateYearTax yr txs c) = round2 (yearRevenue txs)
   \<and> currentYearCosts (calculateYearTax yr txs c) = round2 (yearCosts txs)"
  by (simp add: calculateYearTax_def yearRevenue_def yearCosts_def Let_def)

subsection \<open>Substrings\<close>

lemma startsWith_iff: "startsWith s sub \<longleftrightarrow> (\<exists>q. s = sub @ q)"
  by (induction s sub rule: startsWith.induct) auto

lemma str_includes_iff: "str_includes s sub \<longleftrightarrow> (\<exists>p q. s = p @ sub @ q)"
proof (induction s)
  case Nil
  then show ?case by auto
next
  case (Cons c cs)
  show ?case
  proof
    assume "str_includes (c # cs) sub"
    then consider "startsWith (c # cs) sub" | "str_includes cs sub" by auto
    then show "\<exists>p q. c # cs = p @ sub @ q"
    proof cases
      case 1
      then obtain q where "c # cs = sub @ q" by (auto simp: startsWith_iff)
      then have "c # cs = [] @ sub @ q" by simp
      then show ?thesis by blast
    next
      case 2
      then obtain p q where "cs = p @ sub @ q" using Cons.IH by blast
      then have "c # cs = (c # p) @ sub @ q" by simp
      then show ?thesis by blast
    qed
  next
    assume "\<exists>p q. c # cs = p @ sub @ q"
    then obtain p q where pq: "c # cs = p @ sub @ q" by blast
    show "str_includes (c # cs) sub"
    proof (cases p)
      case Nil
      with pq have "startsWith (c # cs) sub" by (auto simp: startsWith_iff)
      then show ?thesis by simp
    next
      case (Cons a p')
      with pq have "cs = p' @ sub @ q" by simp
      then have "str_includes cs sub" using Cons.IH by blast
      then show ?thesis by simp
    qed
  qed
qed

subsection \<open>The tax of one year\<close>




subsection \<open>Classification\<close>

text \<open>
  C4. A transaction of kind crypto-to-crypto exchange is neither a taxable disposal nor
  a deductible cost, and wherever it stands among the transactions of a year it adds
  nothing to the year's revenue or cost: the year's result is the one computed without
  it.
\<close>

theorem crypto_swap_contributes_nothing:
  assumes "type tx = Crypto_swap"
  shows "\<not> isTaxableSale tx \<and> \<not> isDeductibleCost tx
         \<and> yearRevenue (before @ tx # after) = yearRevenue (before @ after)
         \<and> yearCosts (before @ tx # after) = yearCosts (before @ after)
         \<and> calculateYearTax yr (before @ tx # after) c = calculateYearTax yr (before @ after) c"
  using assms
  by (simp add: isTaxableSale_def isDeductibleCost_def yearRevenue_def yearCosts_def
        calculateYearTax_def)

theorem crypto_swap_contributes_nothing_witness:
  "type (resolvedTx Crypto_swap 500) = Crypto_swap
   \<and> calculateYearTax (Some 2020)
        ([resolvedTx Buy 100] @ resolvedTx Crypto_swap 500 # [resolvedTx Sell 150]) 0
     = calculateYearTax (Some 2020) ([resolvedTx Buy 100] @ [resolvedTx Sell 150]) 0
   \<and> revenue (calculateYearTax (Some 2020)
        ([resolvedTx Buy 100] @ resolvedTx Crypto_swap 500 # [resolvedTx Sell 150]) 0) = 150
   \<and> currentYearCosts (calculateYearTax (Some 2020)
        ([resolvedTx Buy 100] @ resolvedTx Crypto_swap 500 # [resolvedTx Sell 150]) 0) = 100"
proof -
  have h: "type (resolvedTx Crypto_swap 500) = Crypto_swap"
    by (simp add: resolvedTx_def)
  have "revenue (calculateYearTax (Some 2020) ([resolvedTx Buy 100] @ [resolvedTx Sell 150]) 0)
          = 150"
    and "currentYearCosts
           (calculateYearTax (Some 2020) ([resolvedTx Buy 100] @ [resolvedTx Sell 150]) 0) = 100"
    by (simp_all add: calculateYearTax_def Let_def isTaxableSale_def isDeductibleCost_def
          resolvedTx_def tx0_def revenueStep_def costStep_def round2_def Math_round_def)
  with h crypto_swap_contributes_nothing
           [OF h, of "[resolvedTx Buy 100]" "[resolvedTx Sell 150]" "Some 2020" 0]
  show ?thesis by simp
qed

text \<open>
  C5. A transaction is a deductible cost exactly when its kind is acquisition, or its
  kind is fee and its note contains the text \<open>sell\<close>; a fee without a note is not
  deductible.
\<close>

theorem isDeductibleCost_iff:
  "(isDeductibleCost tx \<longleftrightarrow>
      type tx = Buy
      \<or> (type tx = Fee \<and> (\<exists>n p q. tx_notes tx = Some n \<and> n = p @ ''sell'' @ q)))
   \<and> (type tx = Fee \<and> tx_notes tx = None \<longrightarrow> \<not> isDeductibleCost tx)"
  by (auto simp: isDeductibleCost_def str_includes_iff split: option.splits)

theorem isDeductibleCost_iff_witness:
  "isDeductibleCost (tx0\<lparr>type := Fee, tx_notes := Some ''fee for sell order''\<rparr>)
   \<and> \<not> isDeductibleCost (tx0\<lparr>type := Fee, tx_notes := Some ''withdrawal''\<rparr>)
   \<and> type (tx0\<lparr>type := Fee\<rparr>) = Fee \<and> tx_notes (tx0\<lparr>type := Fee\<rparr>) = None
   \<and> \<not> isDeductibleCost (tx0\<lparr>type := Fee\<rparr>)"
  using isDeductibleCost_iff [of "tx0\<lparr>type := Fee\<rparr>"]
  by (simp add: isDeductibleCost_def tx0_def)

subsection \<open>The engine: totals and the carry-forward between years\<close>

lemma round2_cents: "round2 (of_int n / 100) = of_int n / 100"
  by (simp add: round2_def Math_round_def)

lemma wholeCents_round2: "wholeCents (round2 x)"
  by (simp add: wholeCents_def round2_def Math_round_def)

lemma round2_wholeCents: "wholeCents x \<Longrightarrow> round2 x = x"
proof -
  assume "wholeCents x"
  then have "x = of_int \<lfloor>x * 100\<rfloor> / 100" by (simp add: wholeCents_def)
  then show ?thesis using round2_cents by metis
qed

lemma wholeCents_add: "wholeCents x \<Longrightarrow> wholeCents y \<Longrightarrow> wholeCents (x + y)"
proof -
  assume "wholeCents x" "wholeCents y"
  then have "(x + y) * 100 = of_int (\<lfloor>x * 100\<rfloor> + \<lfloor>y * 100\<rfloor>)"
    by (simp add: wholeCents_def algebra_simps)
  then show ?thesis unfolding wholeCents_def by (metis floor_of_int)
qed

lemma wholeCents_sum_list: "(\<And>x. x \<in> set xs \<Longrightarrow> wholeCents (f x)) \<Longrightarrow> wholeCents (sum_list (map f xs))"
  by (induction xs) (auto simp: wholeCents_add, simp add: wholeCents_def)

lemma foldl_plus: "foldl (\<lambda>acc y. acc + f y) a xs = a + sum_list (map f xs)" for a :: real
  by (induction xs arbitrary: a) simp_all

lemma yearLoop_foldl:
  "fst (foldl (yearLoop_step byYear) (tys, c) yrs) = tys @ yearChain byYear c yrs"
proof (induction yrs arbitrary: tys c)
  case Nil
  then show ?case by simp
next
  case (Cons yr yrs)
  have step: "yearLoop_step byYear (tys, c) yr
      = (tys @ [calculateYearTax yr (case map_of byYear yr of None \<Rightarrow> [] | Some txs \<Rightarrow> txs) c],
         carryForwardCosts
           (calculateYearTax yr (case map_of byYear yr of None \<Rightarrow> [] | Some txs \<Rightarrow> txs) c))"
    by (simp add: yearLoop_step_def Let_def)
  show ?case
    by (simp only: foldl_Cons step Cons.IH yearChain.simps append_assoc append_Cons append_Nil)
qed

lemma yearChain_rounded:
  "ty \<in> set (yearChain byYear c yrs) \<Longrightarrow>
     wholeCents (revenue ty) \<and> wholeCents (currentYearCosts ty) \<and> wholeCents (income ty) \<and> wholeCents (tax ty)"
  by (induction yrs arbitrary: c) (auto simp: calculateYearTax_def Let_def wholeCents_round2)

lemma calculateTax_years:
  assumes "fst (calculateTax rt src fs c nm st) = Inr calc"
  shows "\<exists>byYear yrs. years calc = yearChain byYear c yrs
    \<and> totalRevenue calc = round2 (sum_list (map revenue (years calc)))
    \<and> calc_totalCosts calc = round2 (sum_list (map currentYearCosts (years calc)))
    \<and> totalIncome calc = round2 (sum_list (map income (years calc)))
    \<and> totalTax calc = round2 (sum_list (map tax (years calc)))"
  using assms
proof -
  obtain txsPLN st1 where pln:
    "calculatePLNAmounts src (Array_sort compareByDate (concat (map transactions fs))) st
       = (Inr txsPLN, st1)"
    using assms
    by (cases "calculatePLNAmounts src (Array_sort compareByDate (concat (map transactions fs))) st")
       (auto simp: calculateTax_def Let_def split: sum.splits)
  define byYear where "byYear = groupByYear txsPLN"
  define yrs where "yrs = Array_sort defaultCompare (map fst byYear)"
  obtain tys cf where loop: "foldl (yearLoop_step byYear) ([], c) yrs = (tys, cf)"
    by (cases "foldl (yearLoop_step byYear) ([], c) yrs")
  have tys: "tys = yearChain byYear c yrs"
    using yearLoop_foldl [of byYear "[]" c yrs] loop by simp
  have "years calc = tys
    \<and> totalRevenue calc = round2 (sum_list (map revenue tys))
    \<and> calc_totalCosts calc = round2 (sum_list (map currentYearCosts tys))
    \<and> totalIncome calc = round2 (sum_list (map income tys))
    \<and> totalTax calc = round2 (sum_list (map tax tys))"
    using assms pln loop
    by (auto simp: calculateTax_def Let_def byYear_def yrs_def foldl_plus)
  with tys show ?thesis
    by (intro exI [of _ byYear] exI [of _ yrs]) simp
qed



lemma round2_idem: "round2 (round2 x) = round2 x"
  by (simp add: round2_wholeCents wholeCents_round2)

lemma resultOf_the: "resultOf out \<noteq> None \<Longrightarrow> fst out = Inr (the (resultOf out))"
  by (cases "fst out") (simp_all add: resultOf_def)

text \<open>
  C3, as the code has it. In every \<open>TaxCalculation\<close> the engine returns,
  \<open>totalRevenue\<close>, \<open>totalIncome\<close> and \<open>totalTax\<close> are the sums over the tax years of
  \<open>revenue\<close>, \<open>income\<close> and \<open>tax\<close>, and the grand total of costs is the sum of the
  years' \<open>currentYearCosts\<close> (not of their \<open>totalCosts\<close>, which would count a
  carried-forward cost once in every year it passes through). The year fields are whole
  grosze, so the final rounding of each total changes nothing.
\<close>

theorem calculateTax_totals:
  assumes "fst (calculateTax rt src fs c nm st) = Inr calc"
  shows "totalRevenue calc = sum_list (map revenue (years calc))
       \<and> calc_totalCosts calc = sum_list (map currentYearCosts (years calc))
       \<and> totalIncome calc = sum_list (map income (years calc))
       \<and> totalTax calc = sum_list (map tax (years calc))"
proof -
  from calculateTax_years [OF assms] obtain byYear yrs where
    ys: "years calc = yearChain byYear c yrs"
    and t: "totalRevenue calc = round2 (sum_list (map revenue (years calc)))"
       "calc_totalCosts calc = round2 (sum_list (map currentYearCosts (years calc)))"
       "totalIncome calc = round2 (sum_list (map income (years calc)))"
       "totalTax calc = round2 (sum_list (map tax (years calc)))"
    by blast
  have w: "\<And>ty. ty \<in> set (years calc) \<Longrightarrow>
     wholeCents (revenue ty) \<and> wholeCents (currentYearCosts ty) \<and> wholeCents (income ty) \<and> wholeCents (tax ty)"
    unfolding ys by (rule yearChain_rounded)
  show ?thesis
    using t w by (simp add: round2_wholeCents wholeCents_sum_list)
qed

text \<open>
  An acquisition of 100 in 2020 and a disposal of 30 in 2021: total revenue 30, and the
  grand total of costs is 100, while the years' total costs (100 and 100) add up to 200.
\<close>

theorem calculateTax_totals_witness:
  "resultOf (calculateTax rt0 offline [fileOf [resolvedTx Buy 100, laterTx Sell 30]] 0 [] st0) \<noteq> None
   \<and> totalRevenue (the (resultOf (calculateTax rt0 offline [fileOf [resolvedTx Buy 100, laterTx Sell 30]] 0 [] st0)))
       = sum_list (map revenue (years (the (resultOf (calculateTax rt0 offline [fileOf [resolvedTx Buy 100, laterTx Sell 30]] 0 [] st0)))))
   \<and> totalRevenue (the (resultOf (calculateTax rt0 offline [fileOf [resolvedTx Buy 100, laterTx Sell 30]] 0 [] st0))) = 30
   \<and> calc_totalCosts (the (resultOf (calculateTax rt0 offline [fileOf [resolvedTx Buy 100, laterTx Sell 30]] 0 [] st0))) = 100"
proof -
  have ok: "resultOf (calculateTax rt0 offline [fileOf [resolvedTx Buy 100, laterTx Sell 30]] 0 [] st0) \<noteq> None"
    by code_simp
  have v: "totalRevenue (the (resultOf (calculateTax rt0 offline [fileOf [resolvedTx Buy 100, laterTx Sell 30]] 0 [] st0))) = 30"
    "calc_totalCosts (the (resultOf (calculateTax rt0 offline [fileOf [resolvedTx Buy 100, laterTx Sell 30]] 0 [] st0))) = 100"
    by code_simp+
  from calculateTax_totals [OF resultOf_the [OF ok]] ok v show ?thesis by simp
qed

theorem calculateTax_totalCosts_counterexample:
  "map_option calc_totalCosts
     (resultOf (calculateTax rt0 offline [fileOf [resolvedTx Buy 100, laterTx Sell 30]] 0 [] st0)) = Some 100
   \<and> map_option (sum_list \<circ> map totalCosts \<circ> years)
     (resultOf (calculateTax rt0 offline [fileOf [resolvedTx Buy 100, laterTx Sell 30]] 0 [] st0)) = Some 200"
  by code_simp




subsection \<open>Repeated runs\<close>




subsection \<open>Row parsers\<close>













subsection \<open>Signs of the parsed amounts\<close>

text \<open>
  The Binance, BitBay and generic parsers take the absolute value of what they read
  (or emit 0), so their amounts are never negative.
\<close>

lemma abs_parsers_nonneg:
  "parseBinanceRow rt r hdrs i = Some tx \<Longrightarrow> 0 \<le> cryptoAmount tx \<and> 0 \<le> fiatAmount tx"
  "parseBitBayRow rt r hdrs i = Some tx \<Longrightarrow> 0 \<le> cryptoAmount tx \<and> 0 \<le> fiatAmount tx"
  "parseGenericRow rt r hdrs i = Some tx \<Longrightarrow> 0 \<le> cryptoAmount tx \<and> 0 \<le> fiatAmount tx"
  by (auto simp: parseBinanceRow_def parseBitBayRow_def parseGenericRow_def Let_def
           split: if_splits option.splits)

text \<open>
  C7. Every emitted transaction should have non-negative \<open>cryptoAmount\<close> and
  \<open>fiatAmount\<close>. The Kraken parser (like the Coinbase parser) stores the parsed numbers
  as they are: a row with cost \<open>-100\<close> and volume \<open>-1\<close> gives a transaction with
  \<open>fiatAmount\<close> -100 and \<open>cryptoAmount\<close> -1.
\<close>

theorem kraken_negative_amounts:
  "parseFloat rt0 ''-100'' = Some (- 100)
   \<and> map_option fiatAmount (parseKrakenRow rt0 krakenNegativeRow krakenHeaders 0) = Some (- 100)
   \<and> map_option cryptoAmount (parseKrakenRow rt0 krakenNegativeRow krakenHeaders 0) = Some (- 1)"
  by code_simp

subsection \<open>Rate resolution\<close>

text \<open>
  For a transaction date that is valid and at least ten days after the earliest
  representable date, rate resolution returns a rate whatever the source answers.
\<close>

lemma formatDateForAPI_valid: "\<exists>s. formatDateForAPI (Some t) = Inr s"
  by (simp add: formatDateForAPI_def toISOString_def Let_def split: prod.splits)

lemma getLastBusinessDay_loop_valid:
  assumes lo: "- 8640000000000000 + 2 * msPerDay \<le> u" and hi: "u \<le> 8640000000000000"
  shows "\<exists>v. getLastBusinessDay_loop (Some u) = Some v \<and> u - 2 * msPerDay \<le> v \<and> v \<le> u"
proof -
  define k where "k = u div msPerDay"
  have pos: "0 < msPerDay" by (simp add: msPerDay_def)
  have d0: "getDay (Some u) = Some ((k + 4) mod 7)"
    by (simp add: getDay_def k_def)
  have d1: "getDay (Some (u - msPerDay)) = Some ((k - 1 + 4) mod 7)"
  proof -
    have "(u - msPerDay) div msPerDay = k - 1"
      using div_mult_self1 [of msPerDay u "- 1"] pos by (simp add: k_def)
    then show ?thesis by (simp add: getDay_def)
  qed
  have d2: "getDay (Some (u - 2 * msPerDay)) = Some ((k - 2 + 4) mod 7)"
  proof -
    have "(u - 2 * msPerDay) div msPerDay = k - 2"
      using div_mult_self1 [of msPerDay u "- 2"] pos by (simp add: k_def)
    then show ?thesis by (simp add: getDay_def)
  qed
  have a1: "addDays (Some u) (- 1) = Some (u - msPerDay)"
    using lo hi pos by (simp add: addDays_def TimeClip_def)
  have a2: "addDays (Some (u - msPerDay)) (- 1) = Some (u - 2 * msPerDay)"
    using lo hi pos by (simp add: addDays_def TimeClip_def)
  note step = getLastBusinessDay_loop.simps
  consider "(k + 4) mod 7 = 0" | "(k + 4) mod 7 = 6" | "(k + 4) mod 7 \<noteq> 0 \<and> (k + 4) mod 7 \<noteq> 6"
    by blast
  then show ?thesis
  proof cases
    case 1
    then have "(k - 1 + 4) mod 7 = 6" and "(k - 2 + 4) mod 7 = 5" by presburger+
    with 1 d0 d1 d2 have g: "getDay (Some u) = Some 0" "getDay (Some (u - msPerDay)) = Some 6"
      "getDay (Some (u - 2 * msPerDay)) = Some 5"
      by simp_all
    have "getLastBusinessDay_loop (Some u) = getLastBusinessDay_loop (Some (u - msPerDay))"
      using step [of "Some u"] g(1) a1 by simp
    also have "\<dots> = getLastBusinessDay_loop (Some (u - 2 * msPerDay))"
      using step [of "Some (u - msPerDay)"] g(2) a2 by simp
    also have "\<dots> = Some (u - 2 * msPerDay)"
      using step [of "Some (u - 2 * msPerDay)"] g(3) by simp
    finally show ?thesis using pos by simp
  next
    case 2
    then have "(k - 1 + 4) mod 7 = 5" by presburger
    with 2 d0 d1 have g: "getDay (Some u) = Some 6" "getDay (Some (u - msPerDay)) = Some 5"
      by simp_all
    have "getLastBusinessDay_loop (Some u) = getLastBusinessDay_loop (Some (u - msPerDay))"
      using step [of "Some u"] g(1) a1 by simp
    also have "\<dots> = Some (u - msPerDay)"
      using step [of "Some (u - msPerDay)"] g(2) by simp
    finally show ?thesis using pos by simp
  next
    case 3
    with d0 have "getDay (Some u) \<noteq> Some 0" "getDay (Some u) \<noteq> Some 6" by simp_all
    then have "getLastBusinessDay_loop (Some u) = Some u"
      using step [of "Some u"] by simp
    then show ?thesis using pos by simp
  qed
qed

lemma getNearestNBPRate_returns:
  assumes "- 8640000000000000 + 7 * msPerDay \<le> v" and "v \<le> 8640000000000000"
  shows "\<exists>r st'. getNearestNBPRate src cur (Some v) st = (Inr r, st')"
proof -
  obtain e where e: "formatDateForAPI (Some v) = Inr e"
    using formatDateForAPI_valid by blast
  have "addDays (Some v) (- 7) = Some (v - 7 * msPerDay)"
    using assms by (simp add: addDays_def TimeClip_def msPerDay_def)
  then obtain s where s: "formatDateForAPI (addDays (Some v) (- 7)) = Inr s"
    using formatDateForAPI_valid by auto
  show ?thesis
    by (simp add: getNearestNBPRate_def e s Let_def
             split: fetch_result.splits json_body.splits sum.splits)
qed

lemma getNBPExchangeRate_returns:
  assumes lo: "- 8640000000000000 + 10 * msPerDay \<le> t" and hi: "t \<le> 8640000000000000"
  shows "\<exists>r st'. getNBPExchangeRate src cur (Some t) st = (Inr r, st')"
proof -
  have pos: "0 < msPerDay" by (simp add: msPerDay_def)
  have a: "addDays (Some t) (- 1) = Some (t - msPerDay)"
    using lo hi pos by (simp add: addDays_def TimeClip_def)
  from getLastBusinessDay_loop_valid [of "t - msPerDay"] lo hi pos
  obtain v where v: "getLastBusinessDay (Some t) = Some v"
    and vlo: "t - 3 * msPerDay \<le> v" and vhi: "v \<le> t - msPerDay"
    by (auto simp: getLastBusinessDay_def a)
  obtain f where f: "formatDateForAPI (Some v) = Inr f"
    using formatDateForAPI_valid by blast
  have near: "\<And>st1. \<exists>r st'. getNearestNBPRate src cur (Some v) st1 = (Inr r, st')"
    using getNearestNBPRate_returns [of v] vlo vhi lo hi pos by simp
  show ?thesis
  proof (cases "toUpperCase cur = ''PLN''")
    case True
    then show ?thesis by (simp add: getNBPExchangeRate_def)
  next
    case False
    show ?thesis
    proof (cases "rateCache st (toUpperCase cur @ ''_'' @ f)")
      case (Some r)
      with False show ?thesis by (simp add: getNBPExchangeRate_def v f Let_def)
    next
      case None
      with False near show ?thesis
        by (auto simp: getNBPExchangeRate_def v f Let_def
                 split: fetch_result.splits json_body.splits list.splits sum.splits prod.splits)
    qed
  qed
qed

lemma getLastBusinessDay_invalid: "getLastBusinessDay None = None"
  by (simp add: getLastBusinessDay_def addDays_def getLastBusinessDay_loop.simps getDay_def)

lemma USD_not_PLN: "toUpperCase ''USD'' \<noteq> ''PLN''"
  by code_simp

text \<open>
  C8. Rate resolution should never raise. On an invalid transaction date and a currency
  other than PLN, \<open>getNBPExchangeRate\<close> throws the RangeError of \<open>toISOString\<close>, which
  is called before the \<open>try\<close> block, for every behaviour of the rate source. Such
  dates reach it: a Kraken row whose time cell is not a date is emitted with an invalid
  date, and the tax computation on that file ends with the RangeError.
\<close>

theorem getNBPExchangeRate_raises_on_invalid_date:
  "getNBPExchangeRate src ''USD'' None st = (Inl RangeError, st)
   \<and> map date (transactions (parseCSV rt0 (Complete [krakenBadDateRow] krakenHeaders) ''k.csv''))
       = [None]
   \<and> fst (calculateTax rt0 offline
            [parseCSV rt0 (Complete [krakenBadDateRow] krakenHeaders) ''k.csv''] 0 [] st0)
       = Inl RangeError"
proof -
  have a: "getNBPExchangeRate src ''USD'' None st = (Inl RangeError, st)"
    by (simp add: getNBPExchangeRate_def USD_not_PLN getLastBusinessDay_invalid
          formatDateForAPI_def toISOString_def)
  have b: "map date (transactions (parseCSV rt0 (Complete [krakenBadDateRow] krakenHeaders) ''k.csv''))
       = [None]"
    by code_simp
  have c: "fst (calculateTax rt0 offline
            [parseCSV rt0 (Complete [krakenBadDateRow] krakenHeaders) ''k.csv''] 0 [] st0)
       = Inl RangeError"
    by code_simp
  from a b c show ?thesis by simp
qed

subsection \<open>Amounts of zero\<close>




end
